theory Spec2Isabelle
  imports Complex_Main
begin

section \<open>Numbers of the source language\<close>

text \<open>
  Every numeric value of the program is an ECMAScript \<^verbatim>\<open>number\<close>. The model keeps the
  three special values apart from the finite ones, so that a division by zero and a
  not-a-number are results of the model as they are results of the code. Finite values
  are exact reals: rounding and overflow of finite values are left out, and there is one
  zero, which divides as the positive zero does (the only divisor of the pipeline is a
  difference \<^verbatim>\<open>maxScale - minScale\<close>, which is the positive zero when both are equal).
\<close>

datatype jsnum = Fin real | PInf | NInf | NaN

fun js_neg :: "jsnum \<Rightarrow> jsnum" where
  "js_neg (Fin a) = Fin (- a)"
| "js_neg PInf = NInf"
| "js_neg NInf = PInf"
| "js_neg NaN = NaN"

fun js_add :: "jsnum \<Rightarrow> jsnum \<Rightarrow> jsnum" where
  "js_add NaN b = NaN"
| "js_add a NaN = NaN"
| "js_add (Fin a) (Fin b) = Fin (a + b)"
| "js_add PInf NInf = NaN"
| "js_add NInf PInf = NaN"
| "js_add PInf b = PInf"
| "js_add NInf b = NInf"
| "js_add (Fin a) b = b"

definition js_sub :: "jsnum \<Rightarrow> jsnum \<Rightarrow> jsnum" where
  "js_sub a b = js_add a (js_neg b)"

fun js_mul :: "jsnum \<Rightarrow> jsnum \<Rightarrow> jsnum" where
  "js_mul NaN b = NaN"
| "js_mul a NaN = NaN"
| "js_mul (Fin a) (Fin b) = Fin (a * b)"
| "js_mul (Fin a) PInf = (if a = 0 then NaN else if 0 < a then PInf else NInf)"
| "js_mul (Fin a) NInf = (if a = 0 then NaN else if 0 < a then NInf else PInf)"
| "js_mul PInf (Fin b) = (if b = 0 then NaN else if 0 < b then PInf else NInf)"
| "js_mul NInf (Fin b) = (if b = 0 then NaN else if 0 < b then NInf else PInf)"
| "js_mul PInf PInf = PInf"
| "js_mul PInf NInf = NInf"
| "js_mul NInf PInf = NInf"
| "js_mul NInf NInf = PInf"

fun js_div :: "jsnum \<Rightarrow> jsnum \<Rightarrow> jsnum" where
  "js_div NaN b = NaN"
| "js_div a NaN = NaN"
| "js_div (Fin a) (Fin b) =
     (if b = 0 then (if a = 0 then NaN else if 0 < a then PInf else NInf)
      else Fin (a / b))"
| "js_div (Fin a) PInf = Fin 0"
| "js_div (Fin a) NInf = Fin 0"
| "js_div PInf (Fin b) = (if 0 \<le> b then PInf else NInf)"
| "js_div NInf (Fin b) = (if 0 \<le> b then NInf else PInf)"
| "js_div PInf b = NaN"
| "js_div NInf b = NaN"

text \<open>The comparisons \<^verbatim>\<open><\<close>, \<^verbatim>\<open>>\<close> and \<^verbatim>\<open><=\<close>: false as soon as one side is not a number.\<close>

fun js_lt :: "jsnum \<Rightarrow> jsnum \<Rightarrow> bool" where
  "js_lt NaN b = False"
| "js_lt a NaN = False"
| "js_lt (Fin a) (Fin b) = (a < b)"
| "js_lt PInf b = False"
| "js_lt a NInf = False"
| "js_lt NInf b = True"
| "js_lt (Fin a) PInf = True"

definition js_gt :: "jsnum \<Rightarrow> jsnum \<Rightarrow> bool" where
  "js_gt a b = js_lt b a"

fun js_le :: "jsnum \<Rightarrow> jsnum \<Rightarrow> bool" where
  "js_le NaN b = False"
| "js_le a NaN = False"
| "js_le (Fin a) (Fin b) = (a \<le> b)"
| "js_le NInf b = True"
| "js_le a PInf = True"
| "js_le PInf b = False"
| "js_le (Fin a) NInf = False"

text \<open>\<^verbatim>\<open>Math.max\<close>, \<^verbatim>\<open>Math.min\<close>, \<^verbatim>\<open>Math.floor\<close>, \<^verbatim>\<open>Math.sqrt\<close> and \<^verbatim>\<open>Math.pow(v, 2)\<close>.\<close>

fun Math_max :: "jsnum \<Rightarrow> jsnum \<Rightarrow> jsnum" where
  "Math_max NaN b = NaN"
| "Math_max a NaN = NaN"
| "Math_max a b = (if js_lt a b then b else a)"

fun Math_min :: "jsnum \<Rightarrow> jsnum \<Rightarrow> jsnum" where
  "Math_min NaN b = NaN"
| "Math_min a NaN = NaN"
| "Math_min a b = (if js_lt b a then b else a)"

fun Math_floor :: "jsnum \<Rightarrow> jsnum" where
  "Math_floor (Fin a) = Fin (of_int \<lfloor>a\<rfloor>)"
| "Math_floor v = v"

fun Math_sqrt :: "jsnum \<Rightarrow> jsnum" where
  "Math_sqrt (Fin a) = (if a < 0 then NaN else Fin (sqrt a))"
| "Math_sqrt PInf = PInf"
| "Math_sqrt v = NaN"

definition Math_pow2 :: "jsnum \<Rightarrow> jsnum" where
  "Math_pow2 v = js_mul v v"

fun is_finite :: "jsnum \<Rightarrow> bool" where
  "is_finite (Fin a) = True"
| "is_finite v = False"

section \<open>Data model\<close>

text \<open>The declarations of the types module and the constants of \<^verbatim>\<open>APP_CONFIG\<close>.\<close>

datatype GestureType = NONE | HOVER | FORWARD | BACKWARD | UP

text \<open>
  \<^verbatim>\<open>stage: 0 | 1 | 2 | 3\<close> with 0 Idle, 1 Far (the spec's WaitFar), 2 Near (WaitNear) and
  3 Ready; \<^verbatim>\<open>minScale\<close> is the spec's \<open>far_span\<close>, \<^verbatim>\<open>maxScale\<close> its \<open>near_span\<close>.
\<close>

record CalibrationState =
  stage :: nat
  minScale :: jsnum
  maxScale :: jsnum

record RCChannels =
  ch1 :: jsnum
  ch2 :: jsnum
  ch3 :: jsnum
  ch4 :: jsnum

definition EMA_ALPHA :: jsnum where "EMA_ALPHA = Fin (2 / 10)"
definition DEADZONE :: jsnum where "DEADZONE = Fin (5 / 100)"
definition RC_MIN :: jsnum where "RC_MIN = Fin 1000"
definition RC_MID :: jsnum where "RC_MID = Fin 1500"
definition RC_MAX :: jsnum where "RC_MAX = Fin 2000"

section \<open>Calibration: the key handler of the application component\<close>

text \<open>
  \<^verbatim>\<open>addLog(type, message)\<close>: the entries the handler appends, with the values that the
  message templates print.
\<close>

datatype LogType = INFO | WARN | ERROR | DATA

datatype LogMessage =
    CalibrationStarted
  | FarSampled jsnum
  | CalibrationInvalid jsnum jsnum
  | NearSampled jsnum

type_synonym LogEntry = "LogType \<times> LogMessage"

text \<open>
  The state the handler works on: the \<^verbatim>\<open>calibration\<close> state of the component, whose
  initial value is \<^verbatim>\<open>{ stage: 0, minScale: 0.1, maxScale: 0.3 }\<close>, and
  \<^verbatim>\<open>lastSampleRef\<close>, initially 0.
\<close>

definition initialCalibration :: CalibrationState where
  "initialCalibration = \<lparr>stage = 0, minScale = Fin (1 / 10), maxScale = Fin (3 / 10)\<rparr>"

text \<open>
  \<^verbatim>\<open>handleKeyDown\<close>, for the key codes that touch the calibration: \<^verbatim>\<open>KeyC\<close> and
  \<^verbatim>\<open>KeyS\<close> (the \<^verbatim>\<open>Space\<close> branch changes the telemetry's arm state only). The first
  argument is \<^verbatim>\<open>e.code\<close>, the second the value of \<^verbatim>\<open>lastSampleRef.current\<close>. The handler
  is registered again whenever the stage changes, so the stage it tests and the state its
  updater receives are those of one calibration state. The result is the new calibration
  state and the log entries added.
\<close>

definition handleKeyDown :: "string \<Rightarrow> jsnum \<Rightarrow> CalibrationState \<Rightarrow> CalibrationState \<times> LogEntry list" where
  "handleKeyDown code lastSample prev =
     (if code = ''KeyC'' then (prev\<lparr>stage := 1\<rparr>, [(INFO, CalibrationStarted)])
      else if code = ''KeyS'' then
        (if stage prev = 1 then
           (let val = lastSample in
              (prev\<lparr>minScale := val, stage := 2\<rparr>, [(INFO, FarSampled val)]))
         else if stage prev = 2 then
           (let val = lastSample in
              if js_le val (minScale prev)
              then (prev, [(ERROR, CalibrationInvalid val (minScale prev))])
              else (prev\<lparr>maxScale := val, stage := 3\<rparr>, [(INFO, NearSampled val)]))
         else (prev, []))
      else (prev, []))"

section \<open>The video component: one frame of the gesture pipeline\<close>

text \<open>
  A landmark of the detector (its \<^verbatim>\<open>x\<close> and \<^verbatim>\<open>y\<close>; \<^verbatim>\<open>z\<close> is never read) and the
  detector's results: \<^verbatim>\<open>multiHandLandmarks\<close> is absent or a list of hands, each a list
  of landmarks.
\<close>

record Landmark =
  lm_x :: jsnum
  lm_y :: jsnum

record Results =
  multiHandLandmarks :: "Landmark list list option"

text \<open>
  The refs of the component: \<^verbatim>\<open>logicState\<close> (\<^verbatim>\<open>smoothedIntensity\<close>, \<^verbatim>\<open>lastFrameTime\<close>),
  \<^verbatim>\<open>lastHandTime\<close> (milliseconds, as \<^verbatim>\<open>Date.now()\<close> gives them) and \<^verbatim>\<open>lastValidRC\<close>.
\<close>

record HudState =
  smoothedIntensity :: jsnum
  lastFrameTime :: jsnum
  lastHandTime :: int
  lastValidRC :: RCChannels

definition neutralRC :: RCChannels where
  "neutralRC = \<lparr>ch1 = RC_MID, ch2 = RC_MID, ch3 = RC_MIN, ch4 = RC_MID\<rparr>"

text \<open>The refs as the component creates them, when \<^verbatim>\<open>Date.now()\<close> is \<open>t0\<close>.\<close>

definition initialHud :: "int \<Rightarrow> HudState" where
  "initialHud t0 =
     \<lparr>smoothedIntensity = Fin 0, lastFrameTime = Fin 0, lastHandTime = t0,
      lastValidRC = neutralRC\<rparr>"

text \<open>
  What a call of \<^verbatim>\<open>onResults\<close> finds around it: whether the canvas, the video element
  and the drawing context exist (the callback returns at once otherwise), the props
  \<^verbatim>\<open>isActive\<close> and \<^verbatim>\<open>calibration\<close>, and the two readings of \<^verbatim>\<open>Date.now()\<close>: \<open>now1\<close> when
  a hand is seen, \<open>now2\<close> in the failsafe logic.
\<close>

record FrameEnv =
  canvasOk :: bool
  isActive :: bool
  calibration :: CalibrationState
  now1 :: int
  now2 :: int

text \<open>
  What a call does besides changing the refs: it returns at once (\<open>Skipped\<close>), it throws
  a TypeError on reading a field of an undefined landmark (\<open>Threw\<close>), or it runs to its
  end (\<open>Processed\<close>), with the arguments of \<^verbatim>\<open>onGestureUpdate\<close> when that is called and
  the argument of \<^verbatim>\<open>onCalibrationStep\<close> when that is called. Drawing is left out.
\<close>

datatype FrameResult =
    Skipped
  | Threw
  | Processed "(GestureType \<times> jsnum \<times> RCChannels) option" "jsnum option"

text \<open>\<^verbatim>\<open>lm[i]\<close>: undefined (\<open>None\<close>) beyond the end of the array.\<close>

definition elemAt :: "'a list \<Rightarrow> nat \<Rightarrow> 'a option" where
  "elemAt xs i = (if i < length xs then Some (xs ! i) else None)"

text \<open>The helpers \<^verbatim>\<open>clamp\<close> and \<^verbatim>\<open>calculateEMA\<close> of the math utilities.\<close>

definition clamp :: "jsnum \<Rightarrow> jsnum \<Rightarrow> jsnum \<Rightarrow> jsnum" where
  "clamp val mn mx = Math_min (Math_max val mn) mx"

definition calculateEMA :: "jsnum \<Rightarrow> jsnum \<Rightarrow> jsnum \<Rightarrow> jsnum" where
  "calculateEMA current previous alpha =
     js_add (js_mul alpha current) (js_mul (js_sub (Fin 1) alpha) previous)"

text \<open>
  The scale: the distance of landmark 0 (wrist) to landmark 9 (middle MCP). Reading
  \<^verbatim>\<open>.x\<close> of an undefined landmark throws: \<open>None\<close>.
\<close>

definition rawScaleOf :: "Landmark list \<Rightarrow> jsnum option" where
  "rawScaleOf lm =
     (case elemAt lm 0 of None \<Rightarrow> None
      | Some p0 \<Rightarrow>
         (case elemAt lm 9 of None \<Rightarrow> None
          | Some p9 \<Rightarrow>
             Some (Math_sqrt (js_add (Math_pow2 (js_sub (lm_x p0) (lm_x p9)))
                                     (Math_pow2 (js_sub (lm_y p0) (lm_y p9)))))))"

text \<open>
  \<^verbatim>\<open>fingerIndices.map(tipIdx => lm[tipIdx].y < lm[tipIdx - 2].y ? 1 : 0)\<close>, throwing
  (\<open>None\<close>) at the first undefined landmark.
\<close>

fun fingersOf :: "Landmark list \<Rightarrow> nat list \<Rightarrow> nat list option" where
  "fingersOf lm [] = Some []"
| "fingersOf lm (tipIdx # rest) =
     (case elemAt lm tipIdx of None \<Rightarrow> None
      | Some tip \<Rightarrow>
         (case elemAt lm (tipIdx - 2) of None \<Rightarrow> None
          | Some pip \<Rightarrow>
             (case fingersOf lm rest of None \<Rightarrow> None
              | Some fs \<Rightarrow> Some ((if js_lt (lm_y tip) (lm_y pip) then 1 else 0) # fs))))"

definition fingerIndices :: "nat list" where
  "fingerIndices = [8, 12, 16, 20]"

text \<open>\<^verbatim>\<open>fingers.reduce((a, b) => a + b, 0)\<close> and the classification that follows it.\<close>

definition sumFingers :: "nat list \<Rightarrow> nat" where
  "sumFingers fingers = foldl (+) 0 fingers"

definition classify :: "nat list \<Rightarrow> GestureType" where
  "classify fingers =
     (if sumFingers fingers = 4 then FORWARD
      else if sumFingers fingers = 0 then BACKWARD
      else if fingers ! 0 = 1 \<and> sumFingers fingers = 1 then UP
      else HOVER)"

text \<open>The normalisation of the scale against the two calibrated scales.\<close>

definition normalized :: "CalibrationState \<Rightarrow> jsnum \<Rightarrow> jsnum" where
  "normalized cal rawScale =
     clamp (js_div (js_sub rawScale (minScale cal)) (js_sub (maxScale cal) (minScale cal)))
           (Fin 0) (Fin 1)"

text \<open>The deadzone of the pipeline: the smoothed value or 0, nothing rescaled.\<close>

definition deadzone :: "jsnum \<Rightarrow> jsnum" where
  "deadzone smoothed = (if js_gt smoothed DEADZONE then smoothed else Fin 0)"

text \<open>The RC mapping: the base command, then the channel the gesture drives.\<close>

definition rcMapping :: "GestureType \<Rightarrow> jsnum \<Rightarrow> RCChannels" where
  "rcMapping gesture currentIntensity =
     (let rcCmd = \<lparr>ch1 = RC_MID, ch2 = RC_MID, ch3 = RC_MIN, ch4 = RC_MID\<rparr>;
          amp = Math_floor (js_mul currentIntensity (Fin 450))
      in if gesture = FORWARD then rcCmd\<lparr>ch2 := js_sub RC_MID amp\<rparr>
         else if gesture = BACKWARD then rcCmd\<lparr>ch2 := js_add RC_MID amp\<rparr>
         else if gesture = UP
           then rcCmd\<lparr>ch3 := js_add RC_MIN (Math_floor (js_mul currentIntensity (Fin 800)))\<rparr>
         else rcCmd)"

text \<open>
  Steps 3 to 5 of \<^verbatim>\<open>onResults\<close>, from the gesture, the scale and \<^verbatim>\<open>hasHand\<close> that
  step 2 left: calibration and control logic, failsafe, the update of the parent and the
  calibration hook.
\<close>

definition control :: "FrameEnv \<Rightarrow> GestureType \<Rightarrow> jsnum \<Rightarrow> bool \<Rightarrow> HudState \<Rightarrow> HudState \<times> FrameResult" where
  "control e gesture rawScale hasHand s =
     (let cal = calibration e;
          (s', currentIntensity, rcCmd) =
            (if hasHand \<and> stage cal = 3 then
               (let smoothed =
                      calculateEMA (normalized cal rawScale) (smoothedIntensity s) EMA_ALPHA;
                    currentIntensity = deadzone smoothed;
                    rcCmd = rcMapping gesture currentIntensity
                in (s\<lparr>smoothedIntensity := smoothed, lastValidRC := rcCmd\<rparr>,
                    currentIntensity, rcCmd))
             else (s, Fin 0, lastValidRC s));
          timeSinceHand = now2 e - lastHandTime s';
          rcOut = (if \<not> hasHand
                   then (if timeSinceHand < 500 then lastValidRC s' else neutralRC)
                   else rcCmd)
      in (s',
          Processed
            (if isActive e then Some (gesture, currentIntensity, rcOut) else None)
            (if hasHand \<and> (stage cal = 1 \<or> stage cal = 2) then Some rawScale else None)))"

text \<open>
  \<^verbatim>\<open>onResults\<close>. A hand is there when \<^verbatim>\<open>multiHandLandmarks\<close> is present and not empty;
  the first hand is read. \<^verbatim>\<open>lastHandTime\<close> is written before the landmarks are read, so
  a call that throws has changed it.
\<close>

definition onResults :: "FrameEnv \<Rightarrow> Results \<Rightarrow> HudState \<Rightarrow> HudState \<times> FrameResult" where
  "onResults e results s =
     (if \<not> canvasOk e then (s, Skipped)
      else
        (case multiHandLandmarks results of
           None \<Rightarrow> control e NONE (Fin 0) False s
         | Some [] \<Rightarrow> control e NONE (Fin 0) False s
         | Some (lm # others) \<Rightarrow>
             (let s1 = s\<lparr>lastHandTime := now1 e\<rparr> in
                case rawScaleOf lm of None \<Rightarrow> (s1, Threw)
                | Some rawScale \<Rightarrow>
                   (case fingersOf lm fingerIndices of None \<Rightarrow> (s1, Threw)
                    | Some fingers \<Rightarrow> control e (classify fingers) rawScale True s1))))"

text \<open>\<^verbatim>\<open>hasHand\<close> of a frame, and the landmarks of the hand that is read.\<close>

definition hasHand :: "Results \<Rightarrow> bool" where
  "hasHand results =
     (case multiHandLandmarks results of None \<Rightarrow> False | Some hands \<Rightarrow> 0 < length hands)"

definition firstHand :: "Results \<Rightarrow> Landmark list" where
  "firstHand results =
     (case multiHandLandmarks results of Some (lm # others) \<Rightarrow> lm | _ \<Rightarrow> [])"

section \<open>The application: key presses and frames\<close>

text \<open>
  The application holds the calibration state and \<^verbatim>\<open>lastSampleRef\<close>, and renders the
  video component with \<^verbatim>\<open>isActive={true}\<close> and its current calibration. Its events
  are a key press, with its code, and a frame that the detector delivers to
  \<^verbatim>\<open>onResults\<close>, with the state of the canvas and the two clock readings.
  \<^verbatim>\<open>handleCalibrationStep\<close> stores the scale the frame hands up in \<^verbatim>\<open>lastSampleRef\<close>.
  After a call that has thrown, the refs are as the call left them, and the runs of the
  model go on with any further event.
\<close>

record AppState =
  appCalibration :: CalibrationState
  lastSampleRef :: jsnum
  appHud :: HudState

datatype Event = KeyDown string | Frame bool int int Results

definition initialApp :: "int \<Rightarrow> AppState" where
  "initialApp t0 =
     \<lparr>appCalibration = initialCalibration, lastSampleRef = Fin 0, appHud = initialHud t0\<rparr>"

definition frameEnv :: "AppState \<Rightarrow> bool \<Rightarrow> int \<Rightarrow> int \<Rightarrow> FrameEnv" where
  "frameEnv a ok n1 n2 =
     \<lparr>canvasOk = ok, isActive = True, calibration = appCalibration a, now1 = n1, now2 = n2\<rparr>"

fun appStep :: "AppState \<Rightarrow> Event \<Rightarrow> AppState" where
  "appStep a (KeyDown code) =
     a\<lparr>appCalibration := fst (handleKeyDown code (lastSampleRef a) (appCalibration a))\<rparr>"
| "appStep a (Frame ok n1 n2 results) =
     (case onResults (frameEnv a ok n1 n2) results (appHud a) of
        (h, Processed upd (Some val)) \<Rightarrow> a\<lparr>appHud := h, lastSampleRef := val\<rparr>
      | (h, r) \<Rightarrow> a\<lparr>appHud := h\<rparr>)"

fun runApp :: "AppState \<Rightarrow> Event list \<Rightarrow> AppState" where
  "runApp a [] = a"
| "runApp a (ev # evs) = runApp (appStep a ev) evs"

text \<open>
  The command that an event hands to the parent from a frame with a hand in stage 3, if
  the event is such a frame, and the most recent such command of a run.
\<close>

fun readyCommand :: "AppState \<Rightarrow> Event \<Rightarrow> RCChannels option" where
  "readyCommand a (KeyDown code) = None"
| "readyCommand a (Frame ok n1 n2 results) =
     (if hasHand results \<and> stage (appCalibration a) = 3 then
        (case snd (onResults (frameEnv a ok n1 n2) results (appHud a)) of
           Processed (Some (gesture, intensity, rc)) sample \<Rightarrow> Some rc
         | _ \<Rightarrow> None)
      else None)"

fun lastReadyCommand :: "AppState \<Rightarrow> Event list \<Rightarrow> RCChannels option" where
  "lastReadyCommand a [] = None"
| "lastReadyCommand a (ev # evs) =
     (case lastReadyCommand (appStep a ev) evs of
        Some rc \<Rightarrow> Some rc
      | None \<Rightarrow> readyCommand a ev)"

text \<open>Landmarks as the detector gives them: finite coordinates.\<close>

definition finiteLandmark :: "Landmark \<Rightarrow> bool" where
  "finiteLandmark p = (is_finite (lm_x p) \<and> is_finite (lm_y p))"

fun finiteEvent :: "Event \<Rightarrow> bool" where
  "finiteEvent (KeyDown code) = True"
| "finiteEvent (Frame ok n1 n2 results) =
     (case multiHandLandmarks results of
        None \<Rightarrow> True
      | Some hands \<Rightarrow> list_all (list_all finiteLandmark) hands)"

text \<open>A channel value within the RC limits.\<close>

definition inRCLimits :: "jsnum \<Rightarrow> bool" where
  "inRCLimits v = (js_le RC_MIN v \<and> js_le v RC_MAX)"

section \<open>Sample frames\<close>

text \<open>
  Hands of 21 landmarks for the examples: every landmark at the centre of the image but
  the middle MCP (landmark 9) and the tip of the index finger (landmark 8), which are
  higher up. The scale of \<open>farHand\<close> is 0.2 and that of \<open>nearHand\<close> 0.4; in both only the
  index finger is extended.
\<close>

definition palm :: Landmark where
  "palm = \<lparr>lm_x = Fin (1 / 2), lm_y = Fin (1 / 2)\<rparr>"

definition farHand :: "Landmark list" where
  "farHand = (replicate 21 palm)
               [9 := \<lparr>lm_x = Fin (1 / 2), lm_y = Fin (3 / 10)\<rparr>,
                8 := \<lparr>lm_x = Fin (1 / 2), lm_y = Fin (1 / 10)\<rparr>]"

definition nearHand :: "Landmark list" where
  "nearHand = (replicate 21 palm)
                [9 := \<lparr>lm_x = Fin (1 / 2), lm_y = Fin (1 / 10)\<rparr>,
                 8 := \<lparr>lm_x = Fin (1 / 2), lm_y = Fin 0\<rparr>]"

text \<open>
  A calibration as a user does it: the key C, a frame with the far hand, the key S, a
  frame with the near hand, the key S. Then, for a command that goes stale, a frame in
  stage 3 and the key C again.
\<close>

definition calibrationRun :: "Event list" where
  "calibrationRun =
     [KeyDown ''KeyC'',
      Frame True 100 101 \<lparr>multiHandLandmarks = Some [farHand]\<rparr>,
      KeyDown ''KeyS'',
      Frame True 200 201 \<lparr>multiHandLandmarks = Some [nearHand]\<rparr>,
      KeyDown ''KeyS'']"

definition staleRun :: "Event list" where
  "staleRun =
     calibrationRun @
     [Frame True 300 301 \<lparr>multiHandLandmarks = Some [nearHand]\<rparr>,
      KeyDown ''KeyC'']"

section \<open>The frame step, case by case\<close>

lemma fingersOf_21:
  "21 \<le> length lm \<Longrightarrow> fingersOf lm fingerIndices =
     Some [if js_lt (lm_y (lm ! 8)) (lm_y (lm ! 6)) then 1 else 0,
           if js_lt (lm_y (lm ! 12)) (lm_y (lm ! 10)) then 1 else 0,
           if js_lt (lm_y (lm ! 16)) (lm_y (lm ! 14)) then 1 else 0,
           if js_lt (lm_y (lm ! 20)) (lm_y (lm ! 18)) then 1 else 0]"
  by (auto simp: fingerIndices_def elemAt_def)

lemma rawScaleOf_21:
  "21 \<le> length lm \<Longrightarrow> rawScaleOf lm =
     Some (Math_sqrt (js_add (Math_pow2 (js_sub (lm_x (lm ! 0)) (lm_x (lm ! 9))))
                             (Math_pow2 (js_sub (lm_y (lm ! 0)) (lm_y (lm ! 9))))))"
  by (auto simp: rawScaleOf_def elemAt_def)

lemma fingersOf_short: "length lm < 21 \<Longrightarrow> fingersOf lm fingerIndices = None"
  by (simp add: fingerIndices_def elemAt_def split: option.splits)

lemma hasHand_cases:
  "hasHand results \<Longrightarrow>
     \<exists>lm others. multiHandLandmarks results = Some (lm # others) \<and> firstHand results = lm"
  by (auto simp: hasHand_def firstHand_def split: option.splits list.splits)

lemma onResults_nohand:
  "canvasOk e \<Longrightarrow> \<not> hasHand results \<Longrightarrow>
   onResults e results s =
     (s, Processed
           (if isActive e
            then Some (NONE, Fin 0,
                       if now2 e - lastHandTime s < 500 then lastValidRC s else neutralRC)
            else None)
           None)"
  by (auto simp: onResults_def hasHand_def control_def split: option.splits list.splits)

lemma onResults_hand:
  "canvasOk e \<Longrightarrow> multiHandLandmarks results = Some (lm # others) \<Longrightarrow>
   rawScaleOf lm = Some r \<Longrightarrow> fingersOf lm fingerIndices = Some fs \<Longrightarrow>
   onResults e results s = control e (classify fs) r True (s\<lparr>lastHandTime := now1 e\<rparr>)"
  by (simp add: onResults_def)

lemma onResults_threw:
  "canvasOk e \<Longrightarrow> multiHandLandmarks results = Some (lm # others) \<Longrightarrow> length lm < 21 \<Longrightarrow>
   onResults e results s = (s\<lparr>lastHandTime := now1 e\<rparr>, Threw)"
  by (simp add: onResults_def Let_def fingersOf_short split: option.splits)

lemma control_not_ready:
  "stage (calibration e) \<noteq> 3 \<Longrightarrow>
   control e g r True s =
     (s, Processed (if isActive e then Some (g, Fin 0, lastValidRC s) else None)
           (if stage (calibration e) = 1 \<or> stage (calibration e) = 2 then Some r else None))"
  by (simp add: control_def)

lemma control_ready:
  "stage (calibration e) = 3 \<Longrightarrow>
   sm = calculateEMA (normalized (calibration e) r) (smoothedIntensity s) EMA_ALPHA \<Longrightarrow>
   control e g r True s =
     (s\<lparr>smoothedIntensity := sm, lastValidRC := rcMapping g (deadzone sm)\<rparr>,
      Processed (if isActive e then Some (g, deadzone sm, rcMapping g (deadzone sm)) else None)
        None)"
  by (simp add: control_def Let_def)

lemma floor_scaled_bounds:
  fixes i :: real
  assumes "0 \<le> i" and "i \<le> 1" and "0 \<le> k"
  shows "0 \<le> real_of_int \<lfloor>i * k\<rfloor>" and "real_of_int \<lfloor>i * k\<rfloor> \<le> k"
proof -
  have "0 \<le> i * k" using assms by simp
  then show "0 \<le> real_of_int \<lfloor>i * k\<rfloor>" by simp
  have "i * k \<le> k" using assms by (simp add: mult_left_le_one_le)
  moreover have "real_of_int \<lfloor>i * k\<rfloor> \<le> i * k" by simp
  ultimately show "real_of_int \<lfloor>i * k\<rfloor> \<le> k" by linarith
qed

lemma rcMapping_Fin:
  "rcMapping g (Fin i) =
     (if g = FORWARD then neutralRC\<lparr>ch2 := Fin (1500 - of_int \<lfloor>i * 450\<rfloor>)\<rparr>
      else if g = BACKWARD then neutralRC\<lparr>ch2 := Fin (1500 + of_int \<lfloor>i * 450\<rfloor>)\<rparr>
      else if g = UP then neutralRC\<lparr>ch3 := Fin (1000 + of_int \<lfloor>i * 800\<rfloor>)\<rparr>
      else neutralRC)"
  by (simp add: rcMapping_def neutralRC_def RC_MID_def RC_MIN_def js_sub_def Let_def)

lemma normalized_degenerate:
  "minScale cal = Fin m \<Longrightarrow> maxScale cal = Fin m \<Longrightarrow>
   normalized cal (Fin r) = (if r = m then NaN else if m < r then Fin 1 else Fin 0)"
  by (simp add: normalized_def clamp_def js_sub_def)

lemma calculateEMA_NaN: "calculateEMA NaN prev alpha = NaN"
  by (cases alpha) (simp_all add: calculateEMA_def)

lemma deadzone_NaN: "deadzone NaN = Fin 0"
  by (simp add: deadzone_def js_gt_def DEADZONE_def)

lemma rcMapping_zero: "rcMapping g (Fin 0) = neutralRC"
  by (simp add: rcMapping_def neutralRC_def RC_MID_def RC_MIN_def js_sub_def Let_def)

lemma onResults_lastValidRC:
  "lastValidRC (fst (onResults e results s)) =
     (if hasHand results \<and> stage (calibration e) = 3
      then (case snd (onResults e results s) of
              Processed upd sample \<Rightarrow>
                (if isActive e then (case upd of Some (g, i, rc) \<Rightarrow> rc | None \<Rightarrow> lastValidRC s)
                 else lastValidRC (fst (onResults e results s)))
            | _ \<Rightarrow> lastValidRC s)
      else lastValidRC s)"
  by (auto simp: onResults_def control_def hasHand_def Let_def
           split: option.splits list.splits)

lemma appStep_lastValidRC:
  "lastValidRC (appHud (appStep a ev)) =
     (case readyCommand a ev of None \<Rightarrow> lastValidRC (appHud a) | Some rc \<Rightarrow> rc)"
proof (cases ev)
  case (KeyDown code)
  then show ?thesis by simp
next
  case (Frame ok n1 n2 results)
  have h: "appHud (appStep a (Frame ok n1 n2 results)) =
             fst (onResults (frameEnv a ok n1 n2) results (appHud a))"
    by (simp split: prod.splits FrameResult.splits option.splits)
  have act: "isActive (frameEnv a ok n1 n2)" "calibration (frameEnv a ok n1 n2) = appCalibration a"
    by (simp_all add: frameEnv_def)
  show ?thesis
    unfolding Frame h
    by (subst onResults_lastValidRC)
       (simp add: act split: FrameResult.splits option.splits prod.splits)
qed

lemma runApp_lastValidRC:
  "lastValidRC (appHud (runApp a evs)) =
     (case lastReadyCommand a evs of None \<Rightarrow> lastValidRC (appHud a) | Some rc \<Rightarrow> rc)"
  by (induction evs arbitrary: a) (simp_all add: appStep_lastValidRC split: option.splits)

lemma rawScale_finite:
  assumes "list_all finiteLandmark lm" and "rawScaleOf lm = Some v"
  shows "is_finite v"
proof -
  from assms(2) obtain p0 p9 where p: "elemAt lm 0 = Some p0" "elemAt lm 9 = Some p9"
    and v: "v = Math_sqrt (js_add (Math_pow2 (js_sub (lm_x p0) (lm_x p9)))
                                  (Math_pow2 (js_sub (lm_y p0) (lm_y p9))))"
    by (auto simp: rawScaleOf_def split: option.splits)
  from p have "p0 \<in> set lm" "p9 \<in> set lm"
    by (auto simp: elemAt_def split: if_splits)
  with assms(1) have "finiteLandmark p0" "finiteLandmark p9"
    by (simp_all add: list_all_iff)
  then obtain a b c d where "lm_x p0 = Fin a" "lm_y p0 = Fin b" "lm_x p9 = Fin c" "lm_y p9 = Fin d"
    by (auto simp: finiteLandmark_def elim!: is_finite.elims)
  then show ?thesis
    by (simp add: v js_sub_def Math_pow2_def not_less)
qed

lemma onResults_sample:
  assumes "onResults e results s = (h, Processed upd (Some val))"
  shows "\<exists>lm others. multiHandLandmarks results = Some (lm # others) \<and> rawScaleOf lm = Some val"
  using assms
  by (auto simp: onResults_def control_def Let_def split: option.splits list.splits if_splits)

lemma appStep_frame_cases:
  "appStep a (Frame ok n1 n2 results) = a' \<Longrightarrow>
   appCalibration a' = appCalibration a \<and>
   (lastSampleRef a' = lastSampleRef a \<or>
    (\<exists>h upd. onResults (frameEnv a ok n1 n2) results (appHud a)
                = (h, Processed upd (Some (lastSampleRef a')))))"
  by (auto split: prod.splits FrameResult.splits option.splits)

lemma finite_gt: "is_finite a \<Longrightarrow> is_finite b \<Longrightarrow> \<not> js_le a b \<Longrightarrow> js_gt a b"
  by (cases a; cases b) (simp_all add: js_gt_def)

lemma appStep_invariant:
  assumes "finiteEvent ev"
      and "is_finite (lastSampleRef a)" and "is_finite (minScale (appCalibration a))"
      and "stage (appCalibration a) = 3 \<longrightarrow>
             js_gt (maxScale (appCalibration a)) (minScale (appCalibration a))"
  shows "is_finite (lastSampleRef (appStep a ev))
       \<and> is_finite (minScale (appCalibration (appStep a ev)))
       \<and> (stage (appCalibration (appStep a ev)) = 3 \<longrightarrow>
            js_gt (maxScale (appCalibration (appStep a ev)))
                  (minScale (appCalibration (appStep a ev))))"
proof (cases ev)
  case (KeyDown code)
  then show ?thesis
    using assms(2-4) finite_gt [of "lastSampleRef a" "minScale (appCalibration a)"]
    by (auto simp: handleKeyDown_def Let_def)
next
  case (Frame ok n1 n2 results)
  define a' where "a' = appStep a (Frame ok n1 n2 results)"
  from appStep_frame_cases [OF a'_def [symmetric]]
  have cal: "appCalibration a' = appCalibration a"
    and smp: "lastSampleRef a' = lastSampleRef a \<or>
       (\<exists>h upd. onResults (frameEnv a ok n1 n2) results (appHud a)
                = (h, Processed upd (Some (lastSampleRef a'))))"
    by simp_all
  have "is_finite (lastSampleRef a')"
  proof -
    from smp show ?thesis
    proof
      assume "lastSampleRef a' = lastSampleRef a"
      then show ?thesis using assms(2) by simp
    next
      assume "\<exists>h upd. onResults (frameEnv a ok n1 n2) results (appHud a)
                = (h, Processed upd (Some (lastSampleRef a')))"
      then obtain h upd where "onResults (frameEnv a ok n1 n2) results (appHud a)
                = (h, Processed upd (Some (lastSampleRef a')))" by blast
      from onResults_sample [OF this] obtain lm others
        where m: "multiHandLandmarks results = Some (lm # others)"
          and r: "rawScaleOf lm = Some (lastSampleRef a')" by blast
      from assms(1) m have "list_all finiteLandmark lm" by (simp add: Frame)
      from rawScale_finite [OF this r] show ?thesis .
    qed
  qed
  then show ?thesis using assms(3,4) cal by (simp add: Frame a'_def)
qed

lemma runApp_invariant:
  assumes "\<forall>ev \<in> set evs. finiteEvent ev"
      and "is_finite (lastSampleRef a)" and "is_finite (minScale (appCalibration a))"
      and "stage (appCalibration a) = 3 \<longrightarrow>
             js_gt (maxScale (appCalibration a)) (minScale (appCalibration a))"
  shows "stage (appCalibration (runApp a evs)) = 3 \<longrightarrow>
            js_gt (maxScale (appCalibration (runApp a evs)))
                  (minScale (appCalibration (runApp a evs)))"
  using assms
proof (induction evs arbitrary: a)
  case Nil
  then show ?case by simp
next
  case (Cons ev evs)
  from Cons.prems have fe: "finiteEvent ev" and rest: "\<forall>ev \<in> set evs. finiteEvent ev"
    by simp_all
  from appStep_invariant [OF fe Cons.prems(2-4)]
  have "is_finite (lastSampleRef (appStep a ev))"
    "is_finite (minScale (appCalibration (appStep a ev)))"
    "stage (appCalibration (appStep a ev)) = 3 \<longrightarrow>
            js_gt (maxScale (appCalibration (appStep a ev)))
                  (minScale (appCalibration (appStep a ev)))"
    by simp_all
  from Cons.IH [OF rest this] show ?case by simp
qed


section \<open>The sample frames, evaluated\<close>

lemma sqrt_25th: "sqrt (1 / 25) = 1 / 5" "sqrt (4 / 25) = 2 / 5"
  by (rule real_sqrt_unique; simp add: power2_eq_square)+

lemma length_hands: "length farHand = 21" "length nearHand = 21"
  by (simp_all add: farHand_def nearHand_def)

lemma rawScaleOf_hands:
  "rawScaleOf farHand = Some (Fin (1 / 5))" "rawScaleOf nearHand = Some (Fin (2 / 5))"
  by (simp_all add: rawScaleOf_21 length_hands)
     (simp_all add: farHand_def nearHand_def palm_def js_sub_def Math_pow2_def sqrt_25th)

lemma fingersOf_hands:
  "fingersOf farHand fingerIndices = Some [1, 0, 0, 0]"
  "fingersOf nearHand fingerIndices = Some [1, 0, 0, 0]"
  by (simp_all add: fingersOf_21 length_hands)
     (simp_all add: farHand_def nearHand_def palm_def)

lemma classify_index: "classify [Suc 0, 0, 0, 0] = UP"
  by (simp add: classify_def sumFingers_def)

lemma onResults_sample_hands:
  "canvasOk e \<Longrightarrow>
     onResults e \<lparr>multiHandLandmarks = Some [farHand]\<rparr> s =
       control e UP (Fin (1 / 5)) True (s\<lparr>lastHandTime := now1 e\<rparr>)"
  "canvasOk e \<Longrightarrow>
     onResults e \<lparr>multiHandLandmarks = Some [nearHand]\<rparr> s =
       control e UP (Fin (2 / 5)) True (s\<lparr>lastHandTime := now1 e\<rparr>)"
  by (simp_all add: onResults_def rawScaleOf_hands fingersOf_hands classify_index)

lemma finite_hands: "list_all finiteLandmark farHand" "list_all finiteLandmark nearHand"
  by (auto simp: farHand_def nearHand_def palm_def list_all_iff finiteLandmark_def
           dest!: set_update_subset_insert [THEN subsetD])

lemma run_calibrationRun:
  "runApp (initialApp 0) calibrationRun =
     \<lparr>appCalibration = \<lparr>stage = 3, minScale = Fin (1 / 5), maxScale = Fin (2 / 5)\<rparr>,
      lastSampleRef = Fin (2 / 5),
      appHud = (initialHud 0)\<lparr>lastHandTime := 200\<rparr>\<rparr>"
  by (simp add: calibrationRun_def initialApp_def initialCalibration_def frameEnv_def
                onResults_sample_hands control_not_ready handleKeyDown_def Let_def)

lemma normalized_example:
  "normalized \<lparr>stage = 3, minScale = Fin (1 / 5), maxScale = Fin (2 / 5)\<rparr> (Fin (2 / 5)) = Fin 1"
  by (simp add: normalized_def clamp_def js_sub_def)

lemma runApp_append: "runApp a (xs @ ys) = runApp (runApp a xs) ys"
  by (induction xs arbitrary: a) simp_all

lemma lastReadyCommand_append:
  "lastReadyCommand a (xs @ ys) =
     (case lastReadyCommand (runApp a xs) ys of
        Some rc \<Rightarrow> Some rc
      | None \<Rightarrow> lastReadyCommand a xs)"
  by (induction xs arbitrary: a) (simp_all split: option.splits)

lemma ready_frame_example:
  "control \<lparr>canvasOk = True, isActive = True,
            calibration = \<lparr>stage = 3, minScale = Fin (1 / 5), maxScale = Fin (2 / 5)\<rparr>,
            now1 = 300, now2 = 301\<rparr> UP (Fin (2 / 5)) True
           ((initialHud 0)\<lparr>lastHandTime := 300\<rparr>)
   = ((initialHud 0)\<lparr>lastHandTime := 300, smoothedIntensity := Fin (1 / 5),
        lastValidRC := \<lparr>ch1 = Fin 1500, ch2 = Fin 1500, ch3 = Fin 1160, ch4 = Fin 1500\<rparr>\<rparr>,
      Processed (Some (UP, Fin (1 / 5),
        \<lparr>ch1 = Fin 1500, ch2 = Fin 1500, ch3 = Fin 1160, ch4 = Fin 1500\<rparr>)) None)"
  by (simp add: control_ready [OF _ refl] normalized_example calculateEMA_def EMA_ALPHA_def
                js_sub_def initialHud_def deadzone_def DEADZONE_def js_gt_def rcMapping_Fin
                neutralRC_def RC_MID_def RC_MIN_def)

lemma lastReadyCommand_staleRun:
  "lastReadyCommand (initialApp 0) staleRun =
     Some \<lparr>ch1 = Fin 1500, ch2 = Fin 1500, ch3 = Fin 1160, ch4 = Fin 1500\<rparr>"
  by (simp add: staleRun_def lastReadyCommand_append run_calibrationRun frameEnv_def
                hasHand_def onResults_sample_hands ready_frame_example)

lemma run_staleRun:
  "appCalibration (runApp (initialApp 0) staleRun) =
     \<lparr>stage = 1, minScale = Fin (1 / 5), maxScale = Fin (2 / 5)\<rparr>"
  by (simp add: staleRun_def runApp_append run_calibrationRun frameEnv_def
                onResults_sample_hands ready_frame_example handleKeyDown_def)

section \<open>Calibration: properties\<close>

lemma js_gt_not_le: "js_gt a b \<Longrightarrow> \<not> js_le a b"
  by (cases a; cases b) (simp_all add: js_gt_def)

text \<open>
  C3. In stage 2 (WaitNear), a sample that is less than or equal to \<open>minScale\<close> (the far
  span) leaves the whole calibration state as it was, stage and both spans, and adds an
  error entry to the log; a sample strictly greater than \<open>minScale\<close> moves the stage to 3
  (Ready) and stores exactly the sample in \<open>maxScale\<close> (the near span), the far span
  staying as it was.
\<close>

theorem sample_in_wait_near:
  assumes "stage c = 2"
  shows "(js_le v (minScale c) \<longrightarrow>
            handleKeyDown ''KeyS'' v c = (c, [(ERROR, CalibrationInvalid v (minScale c))]))
       \<and> (js_gt v (minScale c) \<longrightarrow>
            stage (fst (handleKeyDown ''KeyS'' v c)) = 3
          \<and> maxScale (fst (handleKeyDown ''KeyS'' v c)) = v
          \<and> minScale (fst (handleKeyDown ''KeyS'' v c)) = minScale c
          \<and> snd (handleKeyDown ''KeyS'' v c) = [(INFO, NearSampled v)])"
  using assms by (auto simp: handleKeyDown_def dest: js_gt_not_le)

theorem sample_in_wait_near_witness:
  "handleKeyDown ''KeyS'' (Fin (1 / 10)) \<lparr>stage = 2, minScale = Fin (1 / 5), maxScale = Fin (3 / 10)\<rparr>
     = (\<lparr>stage = 2, minScale = Fin (1 / 5), maxScale = Fin (3 / 10)\<rparr>,
        [(ERROR, CalibrationInvalid (Fin (1 / 10)) (Fin (1 / 5)))])
   \<and> stage (fst (handleKeyDown ''KeyS'' (Fin (2 / 5))
         \<lparr>stage = 2, minScale = Fin (1 / 5), maxScale = Fin (3 / 10)\<rparr>)) = 3
   \<and> maxScale (fst (handleKeyDown ''KeyS'' (Fin (2 / 5))
         \<lparr>stage = 2, minScale = Fin (1 / 5), maxScale = Fin (3 / 10)\<rparr>)) = Fin (2 / 5)"
  using sample_in_wait_near [where c = "\<lparr>stage = 2, minScale = Fin (1 / 5), maxScale = Fin (3 / 10)\<rparr>"
                               and v = "Fin (1 / 10)"]
        sample_in_wait_near [where c = "\<lparr>stage = 2, minScale = Fin (1 / 5), maxScale = Fin (3 / 10)\<rparr>"
                               and v = "Fin (2 / 5)"]
  by (simp add: js_gt_def)

text \<open>
  C4, as the code has it. In every calibration state, whatever its stage, the key that
  begins the calibration sets the stage to 1 (WaitFar), adds an entry to the log, and
  leaves \<open>minScale\<close> and \<open>maxScale\<close> (the far and the near span) as they were: the spans
  are not cleared.
\<close>

theorem begin_calibration_keeps_spans:
  "handleKeyDown ''KeyC'' v c = (c\<lparr>stage := 1\<rparr>, [(INFO, CalibrationStarted)])
   \<and> stage (fst (handleKeyDown ''KeyC'' v c)) = 1
   \<and> minScale (fst (handleKeyDown ''KeyC'' v c)) = minScale c
   \<and> maxScale (fst (handleKeyDown ''KeyC'' v c)) = maxScale c"
  by (simp add: handleKeyDown_def)

text \<open>
  C4, as the claim has it, fails: from a Ready state with the sampled spans 0.2 and 0.4
  the key that begins the calibration gives stage 1 with the spans 0.2 and 0.4 still
  stored.
\<close>

theorem begin_calibration_counterexample:
  "handleKeyDown ''KeyC'' (Fin 0) \<lparr>stage = 3, minScale = Fin (1 / 5), maxScale = Fin (2 / 5)\<rparr>
     = (\<lparr>stage = 1, minScale = Fin (1 / 5), maxScale = Fin (2 / 5)\<rparr>, [(INFO, CalibrationStarted)])"
  by (simp add: handleKeyDown_def)

text \<open>
  C5. From the initial state of the application, after any sequence of key presses and
  frames whose landmarks have finite coordinates (the samples are the scales of such
  frames), a calibration in stage 3 (Ready) has \<open>maxScale\<close> strictly greater than
  \<open>minScale\<close>: the near span exceeds the far span.
\<close>

theorem ready_near_exceeds_far:
  assumes "\<forall>ev \<in> set evs. finiteEvent ev"
  shows "stage (appCalibration (runApp (initialApp t0) evs)) = 3 \<longrightarrow>
           js_gt (maxScale (appCalibration (runApp (initialApp t0) evs)))
                 (minScale (appCalibration (runApp (initialApp t0) evs)))"
  using runApp_invariant [OF assms, of "initialApp t0"]
  by (simp add: initialApp_def initialCalibration_def)

theorem ready_near_exceeds_far_witness:
  "stage (appCalibration (runApp (initialApp 0) calibrationRun)) = 3
   \<and> js_gt (maxScale (appCalibration (runApp (initialApp 0) calibrationRun)))
           (minScale (appCalibration (runApp (initialApp 0) calibrationRun)))"
proof -
  have fin: "\<forall>ev \<in> set calibrationRun. finiteEvent ev"
    by (simp add: calibrationRun_def finite_hands)
  have st: "stage (appCalibration (runApp (initialApp 0) calibrationRun)) = 3"
    by (simp add: run_calibrationRun)
  from ready_near_exceeds_far [OF fin, of 0] st show ?thesis by blast
qed

section \<open>Failsafe: properties\<close>

text \<open>
  C1. A frame without a hand, processed by an active component: when the time since
  \<open>lastHandTime\<close> is less than 500 ms the command handed to the parent is \<open>lastValidRC\<close>,
  when it is 500 ms or more the command is the neutral one (1500, 1500, 1000, 1500); in
  both cases the gesture is NONE, the intensity 0 and the state of the component,
  \<open>lastValidRC\<close> included, is unchanged. In particular, with \<open>lastValidRC\<close> =
  (1600, 1400, 1200, 1500), frames without a hand at 100 ms and 200 ms after
  \<open>lastHandTime\<close> give (1600, 1400, 1200, 1500), and one at 600 ms gives
  (1500, 1500, 1000, 1500); the state being unchanged by each, they may follow one another.
\<close>

theorem failsafe_no_hand:
  assumes "canvasOk e" and "isActive e" and "\<not> hasHand results"
  shows "(now2 e - lastHandTime s < 500 \<longrightarrow>
            onResults e results s = (s, Processed (Some (NONE, Fin 0, lastValidRC s)) None))
       \<and> (500 \<le> now2 e - lastHandTime s \<longrightarrow>
            onResults e results s = (s, Processed (Some (NONE, Fin 0, neutralRC)) None))
       \<and> (lastValidRC s = \<lparr>ch1 = Fin 1600, ch2 = Fin 1400, ch3 = Fin 1200, ch4 = Fin 1500\<rparr> \<longrightarrow>
            onResults (e\<lparr>now2 := lastHandTime s + 100\<rparr>) results s
              = (s, Processed (Some (NONE, Fin 0,
                    \<lparr>ch1 = Fin 1600, ch2 = Fin 1400, ch3 = Fin 1200, ch4 = Fin 1500\<rparr>)) None)
          \<and> onResults (e\<lparr>now2 := lastHandTime s + 200\<rparr>) results s
              = (s, Processed (Some (NONE, Fin 0,
                    \<lparr>ch1 = Fin 1600, ch2 = Fin 1400, ch3 = Fin 1200, ch4 = Fin 1500\<rparr>)) None)
          \<and> onResults (e\<lparr>now2 := lastHandTime s + 600\<rparr>) results s
              = (s, Processed (Some (NONE, Fin 0,
                    \<lparr>ch1 = Fin 1500, ch2 = Fin 1500, ch3 = Fin 1000, ch4 = Fin 1500\<rparr>)) None))"
  using assms by (simp add: onResults_nohand neutralRC_def RC_MID_def RC_MIN_def)

theorem failsafe_no_hand_witness:
  "onResults \<lparr>canvasOk = True, isActive = True, calibration = initialCalibration,
              now1 = 0, now2 = 1200\<rparr>
             \<lparr>multiHandLandmarks = None\<rparr>
             \<lparr>smoothedIntensity = Fin 0, lastFrameTime = Fin 0, lastHandTime = 1000,
              lastValidRC = \<lparr>ch1 = Fin 1600, ch2 = Fin 1400, ch3 = Fin 1200, ch4 = Fin 1500\<rparr>\<rparr>
     = (\<lparr>smoothedIntensity = Fin 0, lastFrameTime = Fin 0, lastHandTime = 1000,
         lastValidRC = \<lparr>ch1 = Fin 1600, ch2 = Fin 1400, ch3 = Fin 1200, ch4 = Fin 1500\<rparr>\<rparr>,
        Processed (Some (NONE, Fin 0,
          \<lparr>ch1 = Fin 1600, ch2 = Fin 1400, ch3 = Fin 1200, ch4 = Fin 1500\<rparr>)) None)
   \<and> onResults \<lparr>canvasOk = True, isActive = True, calibration = initialCalibration,
              now1 = 0, now2 = 1600\<rparr>
             \<lparr>multiHandLandmarks = Some []\<rparr>
             \<lparr>smoothedIntensity = Fin 0, lastFrameTime = Fin 0, lastHandTime = 1000,
              lastValidRC = \<lparr>ch1 = Fin 1600, ch2 = Fin 1400, ch3 = Fin 1200, ch4 = Fin 1500\<rparr>\<rparr>
     = (\<lparr>smoothedIntensity = Fin 0, lastFrameTime = Fin 0, lastHandTime = 1000,
         lastValidRC = \<lparr>ch1 = Fin 1600, ch2 = Fin 1400, ch3 = Fin 1200, ch4 = Fin 1500\<rparr>\<rparr>,
        Processed (Some (NONE, Fin 0, neutralRC)) None)"
  using failsafe_no_hand
          [where e = "\<lparr>canvasOk = True, isActive = True, calibration = initialCalibration,
                        now1 = 0, now2 = 1200\<rparr>"
             and results = "\<lparr>multiHandLandmarks = None\<rparr>"
             and s = "\<lparr>smoothedIntensity = Fin 0, lastFrameTime = Fin 0, lastHandTime = 1000,
                        lastValidRC = \<lparr>ch1 = Fin 1600, ch2 = Fin 1400, ch3 = Fin 1200,
                                       ch4 = Fin 1500\<rparr>\<rparr>"]
        failsafe_no_hand
          [where e = "\<lparr>canvasOk = True, isActive = True, calibration = initialCalibration,
                        now1 = 0, now2 = 1600\<rparr>"
             and results = "\<lparr>multiHandLandmarks = Some []\<rparr>"
             and s = "\<lparr>smoothedIntensity = Fin 0, lastFrameTime = Fin 0, lastHandTime = 1000,
                        lastValidRC = \<lparr>ch1 = Fin 1600, ch2 = Fin 1400, ch3 = Fin 1200,
                                       ch4 = Fin 1500\<rparr>\<rparr>"]
  by (simp add: hasHand_def)

text \<open>
  C10. A frame with a hand of 21 landmarks or more, processed by an active component
  while the calibration stage is not 3: the command handed to the parent is the stored
  \<open>lastValidRC\<close>, with intensity 0; \<open>lastValidRC\<close> and \<open>smoothedIntensity\<close> stay as they
  were (of the refs only \<open>lastHandTime\<close> changes). In a run of the application that stored
  command is (1500, 1500, 1000, 1500) as long as no frame with a hand in stage 3 has
  handed a command to the parent, and the most recent such command otherwise, however
  long ago that was.
\<close>

theorem hand_not_ready:
  assumes "canvasOk e" and "isActive e" and "hasHand results"
      and "21 \<le> length (firstHand results)" and "stage (calibration e) \<noteq> 3"
  shows "(\<exists>gesture sample.
            onResults e results s =
              (s\<lparr>lastHandTime := now1 e\<rparr>,
               Processed (Some (gesture, Fin 0, lastValidRC s)) sample))
       \<and> lastValidRC (fst (onResults e results s)) = lastValidRC s
       \<and> smoothedIntensity (fst (onResults e results s)) = smoothedIntensity s
       \<and> (s = appHud (runApp (initialApp t0) evs) \<longrightarrow>
            lastValidRC s =
              (case lastReadyCommand (initialApp t0) evs of
                 None \<Rightarrow> \<lparr>ch1 = Fin 1500, ch2 = Fin 1500, ch3 = Fin 1000, ch4 = Fin 1500\<rparr>
               | Some rc \<Rightarrow> rc))"
proof -
  from hasHand_cases [OF assms(3)] obtain lm others
    where h: "multiHandLandmarks results = Some (lm # others)" and "firstHand results = lm"
    by blast
  with assms(4) have len: "21 \<le> length lm" by simp
  note step = onResults_hand [OF assms(1) h rawScaleOf_21 [OF len] fingersOf_21 [OF len]]
  have frame: "\<exists>gesture sample.
            onResults e results s =
              (s\<lparr>lastHandTime := now1 e\<rparr>,
               Processed (Some (gesture, Fin 0, lastValidRC s)) sample)"
    using assms(2,5) by (simp add: step control_not_ready)
  then have keep: "lastValidRC (fst (onResults e results s)) = lastValidRC s"
    "smoothedIntensity (fst (onResults e results s)) = smoothedIntensity s"
    by auto
  have init: "lastValidRC (appHud (initialApp t0)) =
                \<lparr>ch1 = Fin 1500, ch2 = Fin 1500, ch3 = Fin 1000, ch4 = Fin 1500\<rparr>"
    by (simp add: initialApp_def initialHud_def neutralRC_def RC_MID_def RC_MIN_def)
  have trace: "lastValidRC s =
              (case lastReadyCommand (initialApp t0) evs of
                 None \<Rightarrow> \<lparr>ch1 = Fin 1500, ch2 = Fin 1500, ch3 = Fin 1000, ch4 = Fin 1500\<rparr>
               | Some rc \<Rightarrow> rc)"
    if "s = appHud (runApp (initialApp t0) evs)"
    unfolding that runApp_lastValidRC init ..
  from frame keep trace show ?thesis by blast
qed

theorem hand_not_ready_witness:
  "\<exists>gesture sample.
     onResults (frameEnv (runApp (initialApp 0) staleRun) True 400 401)
               \<lparr>multiHandLandmarks = Some [farHand]\<rparr>
               (appHud (runApp (initialApp 0) staleRun))
       = ((appHud (runApp (initialApp 0) staleRun))\<lparr>lastHandTime := 400\<rparr>,
          Processed (Some (gesture, Fin 0,
            \<lparr>ch1 = Fin 1500, ch2 = Fin 1500, ch3 = Fin 1160, ch4 = Fin 1500\<rparr>)) sample)"
proof -
  let ?a = "runApp (initialApp 0) staleRun"
  let ?e = "frameEnv ?a True 400 401"
  let ?r = "\<lparr>multiHandLandmarks = Some [farHand]\<rparr>"
  have env: "canvasOk ?e" "isActive ?e" "now1 ?e = 400"
    by (simp_all add: frameEnv_def)
  have hand: "hasHand ?r" "21 \<le> length (firstHand ?r)"
    by (simp_all add: hasHand_def firstHand_def length_hands)
  have st: "stage (calibration ?e) \<noteq> 3"
    by (simp add: frameEnv_def run_staleRun)
  from hand_not_ready [OF env(1,2) hand st, of "appHud ?a" 0 staleRun]
  show ?thesis
    by (auto simp: lastReadyCommand_staleRun env(3))
qed

section \<open>Command mapping: properties\<close>

text \<open>
  C2. For every gesture and every intensity from 0 to 1, the RC mapping gives the base
  command (1500, 1500, 1000, 1500) for NONE and HOVER, the pitch 1500 - floor(450 i) for
  FORWARD, the pitch 1500 + floor(450 i) for BACKWARD and the throttle
  1000 + floor(800 i) for UP, and each of the four channels lies within 1000 and 2000.
\<close>

theorem command_bounds:
  assumes "0 \<le> i" and "i \<le> 1"
  shows "rcMapping NONE (Fin i) = neutralRC
       \<and> rcMapping HOVER (Fin i) = neutralRC
       \<and> rcMapping FORWARD (Fin i) = neutralRC\<lparr>ch2 := Fin (1500 - of_int \<lfloor>i * 450\<rfloor>)\<rparr>
       \<and> rcMapping BACKWARD (Fin i) = neutralRC\<lparr>ch2 := Fin (1500 + of_int \<lfloor>i * 450\<rfloor>)\<rparr>
       \<and> rcMapping UP (Fin i) = neutralRC\<lparr>ch3 := Fin (1000 + of_int \<lfloor>i * 800\<rfloor>)\<rparr>
       \<and> inRCLimits (ch1 (rcMapping g (Fin i)))
       \<and> inRCLimits (ch2 (rcMapping g (Fin i)))
       \<and> inRCLimits (ch3 (rcMapping g (Fin i)))
       \<and> inRCLimits (ch4 (rcMapping g (Fin i)))"
proof -
  define k where "k = real_of_int \<lfloor>i * 450\<rfloor>"
  define l where "l = real_of_int \<lfloor>i * 800\<rfloor>"
  have k: "0 \<le> k" "k \<le> 450"
    using floor_scaled_bounds [OF assms, of 450] by (simp_all add: k_def)
  have l: "0 \<le> l" "l \<le> 800"
    using floor_scaled_bounds [OF assms, of 800] by (simp_all add: l_def)
  have c1: "ch1 (rcMapping g (Fin i)) = Fin 1500"
    by (simp add: rcMapping_Fin neutralRC_def RC_MID_def)
  have c2: "ch2 (rcMapping g (Fin i)) =
              (if g = FORWARD then Fin (1500 - k) else if g = BACKWARD then Fin (1500 + k)
               else Fin 1500)"
    by (simp add: rcMapping_Fin neutralRC_def RC_MID_def k_def)
  have c3: "ch3 (rcMapping g (Fin i)) = (if g = UP then Fin (1000 + l) else Fin 1000)"
    by (simp add: rcMapping_Fin neutralRC_def RC_MIN_def l_def)
  have c4: "ch4 (rcMapping g (Fin i)) = Fin 1500"
    by (simp add: rcMapping_Fin neutralRC_def RC_MID_def)
  have "inRCLimits (ch1 (rcMapping g (Fin i)))"
    by (simp add: c1 inRCLimits_def RC_MIN_def RC_MAX_def)
  moreover have "inRCLimits (ch2 (rcMapping g (Fin i)))"
    using k by (simp add: c2 inRCLimits_def RC_MIN_def RC_MAX_def)
  moreover have "inRCLimits (ch3 (rcMapping g (Fin i)))"
    using l by (simp add: c3 inRCLimits_def RC_MIN_def RC_MAX_def)
  moreover have "inRCLimits (ch4 (rcMapping g (Fin i)))"
    by (simp add: c4 inRCLimits_def RC_MIN_def RC_MAX_def)
  ultimately show ?thesis by (simp add: rcMapping_Fin)
qed

theorem command_bounds_witness:
  "rcMapping FORWARD (Fin (1 / 2)) = \<lparr>ch1 = Fin 1500, ch2 = Fin 1275, ch3 = Fin 1000, ch4 = Fin 1500\<rparr>
   \<and> rcMapping UP (Fin 1) = \<lparr>ch1 = Fin 1500, ch2 = Fin 1500, ch3 = Fin 1800, ch4 = Fin 1500\<rparr>
   \<and> inRCLimits (ch2 (rcMapping FORWARD (Fin (1 / 2))))"
  using command_bounds [of "1 / 2" FORWARD] command_bounds [of 1 UP]
  by (simp add: neutralRC_def RC_MID_def RC_MIN_def RC_MAX_def inRCLimits_def)


section \<open>Gesture classification: properties\<close>

text \<open>
  C6. The classification is a function of the four finger flags (index, middle, ring,
  pinky) alone and follows the table, for all 16 patterns: all four extended give
  FORWARD, none extended gives BACKWARD, the index finger alone gives UP, every other
  pattern gives HOVER. A processed frame with a hand of 21 landmarks or more hands to the
  parent the classification of the flags of its hand (a finger is extended when its tip
  is above the landmark two before it); a frame without a hand hands NONE.
\<close>

theorem gesture_table:
  assumes "canvasOk e" and "isActive e"
  shows "classify [of_bool i, of_bool m, of_bool r, of_bool p] =
           (if i \<and> m \<and> r \<and> p then FORWARD
            else if \<not> i \<and> \<not> m \<and> \<not> r \<and> \<not> p then BACKWARD
            else if i \<and> \<not> m \<and> \<not> r \<and> \<not> p then UP
            else HOVER)
       \<and> (multiHandLandmarks results = Some (lm # others) \<and> 21 \<le> length lm \<longrightarrow>
            (\<exists>s' intensity rc sample.
               onResults e results s =
                 (s', Processed
                        (Some (classify [of_bool (js_lt (lm_y (lm ! 8)) (lm_y (lm ! 6))),
                                         of_bool (js_lt (lm_y (lm ! 12)) (lm_y (lm ! 10))),
                                         of_bool (js_lt (lm_y (lm ! 16)) (lm_y (lm ! 14))),
                                         of_bool (js_lt (lm_y (lm ! 20)) (lm_y (lm ! 18)))],
                               intensity, rc))
                        sample)))
       \<and> (\<not> hasHand results \<longrightarrow>
            (\<exists>rc. onResults e results s = (s, Processed (Some (NONE, Fin 0, rc)) None)))"
proof -
  have table: "classify [of_bool i, of_bool m, of_bool r, of_bool p] =
           (if i \<and> m \<and> r \<and> p then FORWARD
            else if \<not> i \<and> \<not> m \<and> \<not> r \<and> \<not> p then BACKWARD
            else if i \<and> \<not> m \<and> \<not> r \<and> \<not> p then UP
            else HOVER)"
    by (cases i; cases m; cases r; cases p) (simp_all add: classify_def sumFingers_def)
  have hand: "\<exists>s' intensity rc sample.
               onResults e results s =
                 (s', Processed
                        (Some (classify [of_bool (js_lt (lm_y (lm ! 8)) (lm_y (lm ! 6))),
                                         of_bool (js_lt (lm_y (lm ! 12)) (lm_y (lm ! 10))),
                                         of_bool (js_lt (lm_y (lm ! 16)) (lm_y (lm ! 14))),
                                         of_bool (js_lt (lm_y (lm ! 20)) (lm_y (lm ! 18)))],
                               intensity, rc))
                        sample)"
    if h: "multiHandLandmarks results = Some (lm # others)" and len: "21 \<le> length lm"
  proof -
    have fs: "fingersOf lm fingerIndices =
                Some [of_bool (js_lt (lm_y (lm ! 8)) (lm_y (lm ! 6))),
                      of_bool (js_lt (lm_y (lm ! 12)) (lm_y (lm ! 10))),
                      of_bool (js_lt (lm_y (lm ! 16)) (lm_y (lm ! 14))),
                      of_bool (js_lt (lm_y (lm ! 20)) (lm_y (lm ! 18)))]"
      using len by (simp add: fingersOf_21 of_bool_def)
    note step = onResults_hand [OF assms(1) h rawScaleOf_21 [OF len] fs]
    show ?thesis
    proof (cases "stage (calibration e) = 3")
      case True
      then show ?thesis using assms(2) by (simp add: step control_ready)
    next
      case False
      then show ?thesis using assms(2) by (simp add: step control_not_ready)
    qed
  qed
  have nohand: "\<exists>rc. onResults e results s = (s, Processed (Some (NONE, Fin 0, rc)) None)"
    if "\<not> hasHand results"
    using that assms by (simp add: onResults_nohand)
  from table hand nohand show ?thesis by blast
qed

theorem gesture_table_witness:
  "classify [of_bool True, of_bool False, of_bool False, of_bool False] = UP
   \<and> (\<exists>s' intensity rc sample.
        onResults \<lparr>canvasOk = True, isActive = True, calibration = initialCalibration,
                   now1 = 40, now2 = 41\<rparr>
                  \<lparr>multiHandLandmarks = Some [farHand]\<rparr> (initialHud 0)
          = (s', Processed (Some (UP, intensity, rc)) sample))
   \<and> (\<exists>rc.
        onResults \<lparr>canvasOk = True, isActive = True, calibration = initialCalibration,
                   now1 = 40, now2 = 41\<rparr>
                  \<lparr>multiHandLandmarks = None\<rparr> (initialHud 0)
          = (initialHud 0, Processed (Some (NONE, Fin 0, rc)) None))"
proof -
  let ?e = "\<lparr>canvasOk = True, isActive = True, calibration = initialCalibration,
             now1 = 40, now2 = 41\<rparr>"
  have env: "canvasOk ?e" "isActive ?e" by simp_all
  have bits: "js_lt (lm_y (farHand ! 8)) (lm_y (farHand ! 6))"
    "\<not> js_lt (lm_y (farHand ! 12)) (lm_y (farHand ! 10))"
    "\<not> js_lt (lm_y (farHand ! 16)) (lm_y (farHand ! 14))"
    "\<not> js_lt (lm_y (farHand ! 20)) (lm_y (farHand ! 18))"
    by (simp_all add: farHand_def palm_def)
  from gesture_table [OF env, of True False False False
                        "\<lparr>multiHandLandmarks = Some [farHand]\<rparr>" farHand "[]" "initialHud 0"]
       gesture_table [OF env, of True False False False
                        "\<lparr>multiHandLandmarks = None\<rparr>" farHand "[]" "initialHud 0"]
  show ?thesis
    by (auto simp: length_hands bits hasHand_def)
qed

text \<open>
  C9, as the code has it. A frame whose hand list is absent or empty is processed as a
  frame without a hand: gesture NONE, intensity 0, the failsafe command. A frame with a
  hand is processed to its end exactly when the hand has 21 landmarks or more, and then
  every index that is read (0, 9, the tips 8, 12, 16, 20 and 6, 10, 14, 18 below them) is
  within the hand. With a hand of fewer than 21 landmarks the frame is not taken as one
  without a hand: the call throws on the first undefined landmark, after it has written
  \<open>lastHandTime\<close>, and hands nothing to the parent.
\<close>

theorem malformed_landmarks:
  assumes "canvasOk e"
  shows "(\<not> hasHand results \<longrightarrow>
            onResults e results s =
              (s, Processed
                    (if isActive e
                     then Some (NONE, Fin 0,
                                if now2 e - lastHandTime s < 500 then lastValidRC s
                                else neutralRC)
                     else None)
                    None))
       \<and> (hasHand results \<and> length (firstHand results) < 21 \<longrightarrow>
            onResults e results s = (s\<lparr>lastHandTime := now1 e\<rparr>, Threw))
       \<and> (hasHand results \<and> 21 \<le> length (firstHand results) \<longrightarrow>
            (\<forall>i \<in> set [0, 9, 8, 6, 12, 10, 16, 14, 20, 18].
                elemAt (firstHand results) i = Some (firstHand results ! i))
          \<and> (\<exists>s' upd sample. onResults e results s = (s', Processed upd sample)))"
proof -
  have a: "onResults e results s = (s\<lparr>lastHandTime := now1 e\<rparr>, Threw)"
    if "hasHand results" "length (firstHand results) < 21"
    using hasHand_cases [OF that(1)] that(2) assms by (auto simp: onResults_threw)
  have b: "\<exists>s' upd sample. onResults e results s = (s', Processed upd sample)"
    if "hasHand results" "21 \<le> length (firstHand results)"
  proof -
    from hasHand_cases [OF that(1)] obtain lm others
      where h: "multiHandLandmarks results = Some (lm # others)" and "firstHand results = lm"
      by blast
    with that(2) have len: "21 \<le> length lm" by simp
    note step = onResults_hand [OF assms h rawScaleOf_21 [OF len] fingersOf_21 [OF len]]
    show ?thesis
      by (cases "stage (calibration e) = 3") (simp_all add: step control_ready control_not_ready)
  qed
  have c: "\<forall>i \<in> set [0, 9, 8, 6, 12, 10, 16, 14, 20, 18].
                elemAt (firstHand results) i = Some (firstHand results ! i)"
    if "21 \<le> length (firstHand results)"
    using that by (auto simp: elemAt_def)
  from a b c onResults_nohand [OF assms] show ?thesis by blast
qed

theorem malformed_landmarks_witness:
  "onResults \<lparr>canvasOk = True, isActive = True, calibration = initialCalibration,
              now1 = 40, now2 = 41\<rparr>
             \<lparr>multiHandLandmarks = Some []\<rparr> (initialHud 0)
     = (initialHud 0, Processed (Some (NONE, Fin 0, neutralRC)) None)
   \<and> onResults \<lparr>canvasOk = True, isActive = True, calibration = initialCalibration,
              now1 = 40, now2 = 41\<rparr>
             \<lparr>multiHandLandmarks = Some [take 9 farHand]\<rparr> (initialHud 0)
     = ((initialHud 0)\<lparr>lastHandTime := 40\<rparr>, Threw)
   \<and> (\<exists>s' upd sample.
        onResults \<lparr>canvasOk = True, isActive = True, calibration = initialCalibration,
                   now1 = 40, now2 = 41\<rparr>
                  \<lparr>multiHandLandmarks = Some [farHand]\<rparr> (initialHud 0)
          = (s', Processed upd sample))"
proof -
  let ?e = "\<lparr>canvasOk = True, isActive = True, calibration = initialCalibration,
             now1 = 40, now2 = 41\<rparr>"
  have env: "canvasOk ?e" by simp
  from malformed_landmarks [OF env, of "\<lparr>multiHandLandmarks = Some []\<rparr>" "initialHud 0"]
       malformed_landmarks [OF env, of "\<lparr>multiHandLandmarks = Some [take 9 farHand]\<rparr>"
                              "initialHud 0"]
       malformed_landmarks [OF env, of "\<lparr>multiHandLandmarks = Some [farHand]\<rparr>" "initialHud 0"]
  show ?thesis
    by (simp add: hasHand_def firstHand_def length_hands initialHud_def)
qed

text \<open>
  C9, as the claim has it, fails: a hand of 20 landmarks is not treated as no hand, the
  call throws.
\<close>

theorem malformed_landmarks_counterexample:
  "onResults \<lparr>canvasOk = True, isActive = True, calibration = initialCalibration,
              now1 = 40, now2 = 41\<rparr>
             \<lparr>multiHandLandmarks = Some [take 20 farHand]\<rparr>
             (initialHud 0)
     = ((initialHud 0)\<lparr>lastHandTime := 40\<rparr>, Threw)"
  by (simp add: onResults_threw length_hands)

section \<open>Intensity: properties\<close>

text \<open>
  C7. The deadzone gives exactly 0 for every smoothed value less than or equal to 0.05,
  and the smoothed value itself, not rescaled, for every value strictly greater than
  0.05; the intensity that a processed frame with a hand in stage 3 hands to the parent
  is the deadzone of the smoothed value it has just stored.
\<close>

theorem deadzone_truncates:
  "(js_le v DEADZONE \<longrightarrow> deadzone v = Fin 0)
   \<and> (js_gt v DEADZONE \<longrightarrow> deadzone v = v)
   \<and> (canvasOk e \<and> isActive e \<and> multiHandLandmarks results = Some (lm # others)
        \<and> 21 \<le> length lm \<and> stage (calibration e) = 3 \<longrightarrow>
        (\<exists>g rc. snd (onResults e results s) =
           Processed (Some (g, deadzone (smoothedIntensity (fst (onResults e results s))), rc))
             None))"
proof -
  have "deadzone v = Fin 0" if "js_le v DEADZONE"
    using that js_gt_not_le [of v DEADZONE] by (auto simp: deadzone_def)
  moreover have "deadzone v = v" if "js_gt v DEADZONE"
    using that by (simp add: deadzone_def)
  moreover have "\<exists>g rc. snd (onResults e results s) =
           Processed (Some (g, deadzone (smoothedIntensity (fst (onResults e results s))), rc))
             None"
    if "canvasOk e" "isActive e" "multiHandLandmarks results = Some (lm # others)"
       "21 \<le> length lm" "stage (calibration e) = 3"
    using that
    by (simp add: onResults_hand [OF that(1) that(3) rawScaleOf_21 fingersOf_21]
                  control_ready)
  ultimately show ?thesis by blast
qed

theorem deadzone_truncates_witness:
  "deadzone (Fin (1 / 100)) = Fin 0
   \<and> deadzone (Fin (1 / 2)) = Fin (1 / 2)
   \<and> (\<exists>g rc.
        snd (onResults \<lparr>canvasOk = True, isActive = True,
                        calibration = \<lparr>stage = 3, minScale = Fin (1 / 5), maxScale = Fin (2 / 5)\<rparr>,
                        now1 = 300, now2 = 301\<rparr>
                       \<lparr>multiHandLandmarks = Some [nearHand]\<rparr> (initialHud 0))
          = Processed (Some (g, Fin (1 / 5), rc)) None)"
proof -
  let ?e = "\<lparr>canvasOk = True, isActive = True,
             calibration = \<lparr>stage = 3, minScale = Fin (1 / 5), maxScale = Fin (2 / 5)\<rparr>,
             now1 = 300, now2 = 301\<rparr>"
  let ?r = "\<lparr>multiHandLandmarks = Some [nearHand]\<rparr>"
  have sm: "smoothedIntensity (fst (onResults ?e ?r (initialHud 0))) = Fin (1 / 5)"
    by (simp add: onResults_sample_hands ready_frame_example)
  from deadzone_truncates [of "Fin (1 / 100)" ?e ?r nearHand "[]" "initialHud 0"]
       deadzone_truncates [of "Fin (1 / 2)" ?e ?r nearHand "[]" "initialHud 0"]
       deadzone_truncates [of "Fin (1 / 5)" ?e ?r nearHand "[]" "initialHud 0"]
  show ?thesis
    by (auto simp: sm length_hands DEADZONE_def js_gt_def)
qed

text \<open>
  C8, as the code has it. With a degenerate calibration in stage 3 (\<open>maxScale\<close> and
  \<open>minScale\<close> the same finite value) and a hand with a finite scale, the frame is
  processed as any other and nothing tells of the calibration: the normalised value is
  not-a-number when the scale equals \<open>minScale\<close>, 1 when it is greater and 0 when it is
  less (no infinity gets past the clamp), and the smoothed value stored is the moving
  average with that value. When the scale equals \<open>minScale\<close> the stored smoothed value is
  therefore not-a-number, and that frame hands intensity 0 and the neutral command to
  the parent.
\<close>

theorem degenerate_calibration:
  assumes "canvasOk e" and "isActive e"
      and "multiHandLandmarks results = Some (lm # others)" and "21 \<le> length lm"
      and "stage (calibration e) = 3"
      and "minScale (calibration e) = Fin m" and "maxScale (calibration e) = Fin m"
      and "rawScaleOf lm = Some (Fin r)"
  shows "(\<exists>g rc. snd (onResults e results s) =
                   Processed (Some (g, deadzone (smoothedIntensity (fst (onResults e results s))), rc))
                     None)
       \<and> smoothedIntensity (fst (onResults e results s)) =
           calculateEMA (if r = m then NaN else if m < r then Fin 1 else Fin 0)
                        (smoothedIntensity s) EMA_ALPHA
       \<and> (r = m \<longrightarrow>
            smoothedIntensity (fst (onResults e results s)) = NaN
          \<and> (\<exists>g. snd (onResults e results s) = Processed (Some (g, Fin 0, neutralRC)) None))"
proof -
  note step = onResults_hand [OF assms(1) assms(3) assms(8) fingersOf_21 [OF assms(4)]]
  note norm = normalized_degenerate [OF assms(6) assms(7)]
  show ?thesis
    using assms(2,5)
    by (simp add: step control_ready norm calculateEMA_NaN deadzone_NaN rcMapping_zero)
qed

theorem degenerate_calibration_witness:
  "smoothedIntensity
     (fst (onResults \<lparr>canvasOk = True, isActive = True,
                      calibration = \<lparr>stage = 3, minScale = Fin (2 / 5), maxScale = Fin (2 / 5)\<rparr>,
                      now1 = 300, now2 = 301\<rparr>
                     \<lparr>multiHandLandmarks = Some [nearHand]\<rparr> (initialHud 0))) = NaN
   \<and> (\<exists>g. snd (onResults \<lparr>canvasOk = True, isActive = True,
                      calibration = \<lparr>stage = 3, minScale = Fin (2 / 5), maxScale = Fin (2 / 5)\<rparr>,
                      now1 = 300, now2 = 301\<rparr>
                     \<lparr>multiHandLandmarks = Some [nearHand]\<rparr> (initialHud 0))
          = Processed (Some (g, Fin 0, neutralRC)) None)"
  using degenerate_calibration
          [where e = "\<lparr>canvasOk = True, isActive = True,
                        calibration = \<lparr>stage = 3, minScale = Fin (2 / 5), maxScale = Fin (2 / 5)\<rparr>,
                        now1 = 300, now2 = 301\<rparr>"
             and results = "\<lparr>multiHandLandmarks = Some [nearHand]\<rparr>"
             and lm = nearHand and others = "[]" and m = "2 / 5" and r = "2 / 5"
             and s = "initialHud 0"]
  by (simp add: length_hands rawScaleOf_hands calculateEMA_NaN)

text \<open>
  C8, as the claim has it, fails: with both calibrated scales 0.2 and a hand of scale
  0.2, the frame stores not-a-number in \<open>smoothedIntensity\<close> and is processed like any
  other frame.
\<close>

theorem degenerate_calibration_counterexample:
  "onResults \<lparr>canvasOk = True, isActive = True,
              calibration = \<lparr>stage = 3, minScale = Fin (1 / 5), maxScale = Fin (1 / 5)\<rparr>,
              now1 = 40, now2 = 41\<rparr>
             \<lparr>multiHandLandmarks = Some [farHand]\<rparr> (initialHud 0)
     = (\<lparr>smoothedIntensity = NaN, lastFrameTime = Fin 0, lastHandTime = 40,
         lastValidRC = neutralRC\<rparr>,
        Processed (Some (UP, Fin 0, neutralRC)) None)"
  by (simp add: onResults_sample_hands control_ready [OF _ refl] normalized_def clamp_def
                js_sub_def calculateEMA_NaN deadzone_NaN rcMapping_zero initialHud_def)

end
